theory Spec2Isabelle
  imports Complex_Main "HOL-Library.AList"
begin

section \<open>Conventions of the embedding\<close>

text \<open>
  The receiver is Python over numpy. Python floats and numpy float64 values are modelled
  as HOL reals, complex128 values as HOL complex numbers, Python ints as \<open>int\<close>. The one
  non-finite value the code itself manufactures is the NaN that numpy returns for the mean
  or the variance of an empty list; it is modelled as \<open>None\<close> of \<open>real option\<close>, and a
  comparison with it is false, as in IEEE arithmetic. Rounding, overflow and signed zeros
  are outside the model. Plotting and logging calls have no effect on the values below and
  are left out. Every exception the modelled code can raise is a value of \<open>error\<close>.
\<close>

datatype error = TypeError | KeyError | ValueError | NotImplementedError | UnknownEventError

subsection \<open>Python and numpy primitives\<close>

text \<open>Python's \<open>x % m\<close> on floats, for a positive modulus: the result has the sign of \<open>m\<close>.\<close>

definition py_fmod :: "real \<Rightarrow> real \<Rightarrow> real" where
  "py_fmod x m = x - m * of_int \<lfloor>x / m\<rfloor>"

text \<open>\<open>int(x)\<close> on a float truncates towards zero.\<close>

definition py_int :: "real \<Rightarrow> int" where
  "py_int x = (if 0 \<le> x then \<lfloor>x\<rfloor> else \<lceil>x\<rceil>)"

text \<open>\<open>xs[-n:]\<close>: the last \<open>n\<close> entries, or all of them when there are fewer.\<close>

definition py_last :: "nat \<Rightarrow> 'a list \<Rightarrow> 'a list" where
  "py_last n xs = drop (length xs - n) xs"

definition math_tau :: real where
  "math_tau = 2 * pi"

definition np_sign :: "real \<Rightarrow> real" where
  "np_sign x = (if 0 < x then 1 else if x < 0 then - 1 else 0)"

definition np_mean :: "real list \<Rightarrow> real option" where
  "np_mean xs = (if xs = [] then None else Some (sum_list xs / real (length xs)))"

definition np_mean_complex :: "complex list \<Rightarrow> complex option" where
  "np_mean_complex zs = (if zs = [] then None else Some (sum_list zs / of_nat (length zs)))"

text \<open>\<open>np.var\<close>: the population variance, the mean of the squared deviations.\<close>

definition np_var :: "real list \<Rightarrow> real option" where
  "np_var xs =
     (case np_mean xs of
        None \<Rightarrow> None
      | Some m \<Rightarrow> np_mean (map (\<lambda>x. (x - m)\<^sup>2) xs))"

definition nan_lt :: "real option \<Rightarrow> real \<Rightarrow> bool" where
  "nan_lt a c = (case a of None \<Rightarrow> False | Some v \<Rightarrow> v < c)"

definition nan_add :: "real option \<Rightarrow> real option \<Rightarrow> real option" where
  "nan_add a b = (case a of None \<Rightarrow> None | Some u \<Rightarrow> (case b of None \<Rightarrow> None | Some v \<Rightarrow> Some (u + v)))"

definition nan_div :: "real option \<Rightarrow> real \<Rightarrow> real option" where
  "nan_div a c = map_option (\<lambda>u. u / c) a"

text \<open>\<open>np.arctan2(y, x)\<close>, the angle of the point \<open>(x, y)\<close> in \<open>(-\<pi>, \<pi>]\<close>.\<close>

definition np_arctan2 :: "real \<Rightarrow> real \<Rightarrow> real" where
  "np_arctan2 y x =
     (if 0 < x then arctan (y / x)
      else if x < 0 \<and> 0 \<le> y then arctan (y / x) + pi
      else if x < 0 \<and> y < 0 then arctan (y / x) - pi
      else if 0 < y then pi / 2
      else if y < 0 then - (pi / 2)
      else 0)"

definition np_angle :: "complex \<Rightarrow> real" where
  "np_angle z = np_arctan2 (Im z) (Re z)"

text \<open>\<open>np.argmax\<close>: the first index of the largest entry; an empty input raises ValueError.\<close>

fun argmax_from :: "real list \<Rightarrow> nat \<Rightarrow> nat \<Rightarrow> real \<Rightarrow> nat" where
  "argmax_from [] i best_i best = best_i"
| "argmax_from (x # xs) i best_i best =
     (if best < x then argmax_from xs (Suc i) i x else argmax_from xs (Suc i) best_i best)"

definition np_argmax :: "real list \<Rightarrow> error + nat" where
  "np_argmax xs = (case xs of [] \<Rightarrow> Inl ValueError | x # rest \<Rightarrow> Inr (argmax_from rest 1 0 x))"

section \<open>Constants\<close>

text \<open>
  Modelled from the spec: \<open>gypsum.constants\<close> is not among the sources. The spec fixes the
  sample rate at 2.046 MHz, which gives 2046 samples per one-millisecond PRN period.
\<close>

definition SAMPLES_PER_SECOND :: int where
  "SAMPLES_PER_SECOND = 2046000"

definition SAMPLES_PER_PRN_TRANSMISSION :: int where
  "SAMPLES_PER_PRN_TRANSMISSION = 2046"

section \<open>Tracker (tracker.py)\<close>

datatype NavigationBitPseudosymbol = PS_MINUS_ONE | PS_ONE

text \<open>\<open>NavigationBitPseudosymbol.from_val\<close> looks the value up in a two-entry dict.\<close>

definition from_val :: "int \<Rightarrow> error + NavigationBitPseudosymbol" where
  "from_val val =
     (if val = - 1 then Inr PS_MINUS_ONE
      else if val = 1 then Inr PS_ONE
      else Inl KeyError)"

fun as_val :: "NavigationBitPseudosymbol \<Rightarrow> int" where
  "as_val PS_MINUS_ONE = - 1"
| "as_val PS_ONE = 1"

text \<open>
  Modelled from the spec: \<open>gypsum.satellite.GpsSatellite\<close> is not among the sources; the
  code reads its \<open>satellite_id\<close> and its complex PRN replica.
\<close>

record GpsSatellite =
  sat_id :: nat
  prn_as_complex :: "complex list"

record GpsSatelliteTrackingParameters =
  satellite :: GpsSatellite
  current_doppler_shift :: real
  current_carrier_wave_phase_shift :: real
  current_prn_code_phase_shift :: int
  doppler_shifts :: "real list"
  carrier_wave_phases :: "real list"
  carrier_wave_phase_errors :: "real list"
  navigation_bit_pseudosymbols :: "int list"

text \<open>
  The tracker object. \<open>prompt_is\<close> and \<open>prompt_qs\<close> are the attributes \<open>_is\<close> and \<open>_qs\<close>
  of the source (an Isabelle name cannot start with an underscore).
\<close>

record GpsSatelliteTracker =
  tracking_params :: GpsSatelliteTrackingParameters
  loop_bandwidth :: real
  loop_gain_phase :: real
  loop_gain_freq :: real
  prompt_is :: "real list"
  prompt_qs :: "real list"
  iq_angles :: "real list"
  phase_errors :: "real list"
  carrier_phases :: "real list"

text \<open>
  \<open>GpsSatelliteTracker.__init__(self, tracking_params, loop_bandwidth)\<close>. Both parameters
  are required. The second argument of the model is \<open>None\<close> when the caller passes no
  \<open>loop_bandwidth\<close>: Python then raises TypeError before the body runs.
\<close>

definition GpsSatelliteTracker_init ::
  "GpsSatelliteTrackingParameters \<Rightarrow> real option \<Rightarrow> error + GpsSatelliteTracker" where
  "GpsSatelliteTracker_init params bw_arg =
     (case bw_arg of
        None \<Rightarrow> Inl TypeError
      | Some bw \<Rightarrow>
          (let damping_factor = sqrt 2 / 2;
               natural_freq = bw / (damping_factor * sqrt (1 + damping_factor\<^sup>2));
               denom = 1 + ((2 * damping_factor * natural_freq) + natural_freq\<^sup>2)
           in Inr \<lparr> tracking_params = params,
                    loop_bandwidth = bw,
                    loop_gain_phase = (4 * damping_factor * natural_freq) / denom,
                    loop_gain_freq = (4 * natural_freq\<^sup>2) / denom,
                    prompt_is = [], prompt_qs = [], iq_angles = [],
                    phase_errors = [], carrier_phases = [] \<rparr>))"

subsection \<open>Lock detection\<close>

text \<open>The angle computed from the centre of mass of the left pole, in degrees.\<close>

definition centered_angle_of :: "complex \<Rightarrow> real" where
  "centered_angle_of left_point =
     (let angle = 180 - py_fmod ((np_arctan2 (Im left_point) (Re left_point) / math_tau) * 360) 180
      in if angle < 90 then angle else 180 - angle)"

text \<open>
  The source writes \<open>abs(centered_angle < 6)\<close>: the absolute value of the comparison's
  truth value, which is then used as a condition. \<open>py_abs_bool\<close> is that number.
\<close>

definition py_abs_bool :: "bool \<Rightarrow> int" where
  "py_abs_bool b = \<bar>if b then 1 else 0\<bar>"

definition does_i_channel_look_locked :: "real list \<Rightarrow> bool" where
  "does_i_channel_look_locked is_hist =
     (if 2 < length is_hist then
        (let last_few_i_values = py_last 250 is_hist;
             positive_var = np_var (filter (\<lambda>x. 0 \<le> x) last_few_i_values);
             negative_var = np_var (filter (\<lambda>x. x < 0) last_few_i_values);
             s = nan_div (nan_add positive_var negative_var) 2
         in nan_lt s 2)
      else True)"

definition is_constellation_rotation_acceptable :: "real list \<Rightarrow> real list \<Rightarrow> bool" where
  "is_constellation_rotation_acceptable is_hist qs_hist =
     (let points = map (\<lambda>(i, q). Complex i q) (zip is_hist qs_hist)
      in if 2 < length points then
           (case np_mean_complex (filter (\<lambda>p. Re p < 0) points) of
              None \<Rightarrow> py_abs_bool False \<noteq> 0
            | Some left_point \<Rightarrow> py_abs_bool (centered_angle_of left_point < 6) \<noteq> 0)
         else True)"

definition is_locked :: "GpsSatelliteTracker \<Rightarrow> bool" where
  "is_locked t =
     (let previous_milliseconds_to_consider = 250;
          errs = carrier_wave_phase_errors (tracking_params t)
      in if length errs < previous_milliseconds_to_consider then False
         else
           (let last_few_phase_errors = py_last previous_milliseconds_to_consider errs;
                is_phase_error_variance_under_threshold = nan_lt (np_var last_few_phase_errors) 900
            in is_phase_error_variance_under_threshold
               \<and> does_i_channel_look_locked (prompt_is t)
               \<and> is_constellation_rotation_acceptable (prompt_is t) (prompt_qs t)))"

subsection \<open>Loop filter\<close>

definition calculate_loop_filter_alpha_and_beta :: "real \<Rightarrow> real \<times> real" where
  "calculate_loop_filter_alpha_and_beta bw =
     (let time_per_sample = 1 / real_of_int SAMPLES_PER_SECOND;
          zeta = 1 / sqrt 2;
          gain_phase = 4 * zeta * bw * time_per_sample;
          gain_freq = 4 * bw\<^sup>2 * time_per_sample
      in (gain_phase, gain_freq))"

definition test5 :: "GpsSatelliteTracker \<Rightarrow> complex \<Rightarrow> GpsSatelliteTracker" where
  "test5 t sample =
     (let err = Re sample * Im sample;
          (alpha, beta) = (if is_locked t then calculate_loop_filter_alpha_and_beta 3
                           else calculate_loop_filter_alpha_and_beta 6);
          p = tracking_params t;
          p1 = p\<lparr> current_carrier_wave_phase_shift :=
                    py_fmod (current_carrier_wave_phase_shift p + err * alpha) math_tau \<rparr>;
          p2 = p1\<lparr> current_doppler_shift := current_doppler_shift p1 + err * beta \<rparr>;
          p3 = p2\<lparr> carrier_wave_phase_errors := carrier_wave_phase_errors p2 @ [err] \<rparr>
      in t\<lparr> tracking_params := p3, iq_angles := iq_angles t @ [np_angle sample] \<rparr>)"

subsection \<open>One tracking step\<close>

text \<open>
  \<open>process_samples(seconds_since_start, samples)\<close>. The correlation profile
  \<open>coherent_prompt_correlation\<close> is computed from the samples by
  \<open>gypsum.utils.frequency_domain_correlation\<close>, which is not among the sources; the model
  takes the profile as its third argument. The result is the tracker after the call and
  either the returned pseudosymbol or the exception raised; the state changes made before
  a raise persist, as they do on the Python object.
\<close>

definition recenter_offset :: "nat \<Rightarrow> int" where
  "recenter_offset k =
     (if real k \<le> real_of_int SAMPLES_PER_PRN_TRANSMISSION / 2 then int k
      else int k - SAMPLES_PER_PRN_TRANSMISSION)"

definition slide_code_phase :: "int \<Rightarrow> int \<Rightarrow> int" where
  "slide_code_phase phase centered =
     (let moved = (if 0 < centered then phase + 1
                   else if centered < 0 then phase - 1
                   else phase)
      in moved mod SAMPLES_PER_PRN_TRANSMISSION)"

definition process_samples ::
  "GpsSatelliteTracker \<Rightarrow> real \<Rightarrow> complex list
     \<Rightarrow> GpsSatelliteTracker \<times> (error + NavigationBitPseudosymbol)" where
  "process_samples t seconds_since_start coherent_prompt_correlation =
     (case np_argmax (map cmod coherent_prompt_correlation) of
        Inl e \<Rightarrow> (t, Inl e)
      | Inr peak_offset \<Rightarrow>
          (let p = tracking_params t;
               centered = recenter_offset peak_offset;
               p1 = p\<lparr> current_prn_code_phase_shift :=
                         slide_code_phase (current_prn_code_phase_shift p) centered \<rparr>;
               peak = coherent_prompt_correlation ! peak_offset;
               pseudosymbol_value = py_int (np_sign (Re peak));
               p2 = p1\<lparr> navigation_bit_pseudosymbols :=
                          navigation_bit_pseudosymbols p1 @ [pseudosymbol_value] \<rparr>;
               t1 = t\<lparr> tracking_params := p2,
                        prompt_is := prompt_is t @ [Re peak],
                        prompt_qs := prompt_qs t @ [Im peak] \<rparr>;
               t2 = test5 t1 peak;
               q = tracking_params t2;
               t3 = t2\<lparr> carrier_phases :=
                          carrier_phases t2 @ [current_carrier_wave_phase_shift q] \<rparr>;
               q1 = q\<lparr> doppler_shifts := doppler_shifts q @ [current_doppler_shift q],
                        carrier_wave_phases :=
                          carrier_wave_phases q @ [current_carrier_wave_phase_shift q] \<rparr>;
               q2 = (if 4.99 \<le> py_fmod seconds_since_start 5
                     then q1\<lparr> carrier_wave_phase_errors := [] \<rparr> else q1);
               t4 = t3\<lparr> tracking_params := q2 \<rparr>;
               t5 = (if py_fmod seconds_since_start 1 = 0
                     then t4\<lparr> prompt_is := [], prompt_qs := [], iq_angles := [],
                              carrier_phases := [] \<rparr>
                     else t4)
           in (t5, from_val pseudosymbol_value)))"

section \<open>World model (world_model.py)\<close>

datatype OrbitalParameterType =
    SEMI_MAJOR_AXIS
  | ECCENTRICITY
  | INCLINATION
  | LONGITUDE_OF_ASCENDING_NODE
  | ARGUMENT_OF_PERIGEE
  | MEAN_ANOMALY_AT_REFERENCE_TIME

text \<open>The members of the enum, in declaration order: what iterating over the enum yields.\<close>

definition all_orbital_parameter_types :: "OrbitalParameterType list" where
  "all_orbital_parameter_types =
     [SEMI_MAJOR_AXIS, ECCENTRICITY, INCLINATION, LONGITUDE_OF_ASCENDING_NODE,
      ARGUMENT_OF_PERIGEE, MEAN_ANOMALY_AT_REFERENCE_TIME]"

datatype TimeParameterType = WEEK_NUMBER

text \<open>
  A \<open>ParameterSet\<close> holds the dict \<open>parameter_type_to_value\<close>, which has every member of
  the enum as a key from construction on; each value is \<open>None\<close> or a number.
\<close>

type_synonym OrbitalParameters = "OrbitalParameterType \<Rightarrow> real option"
type_synonym TimeParameters = "TimeParameterType \<Rightarrow> int option"

definition OrbitalParameters_init :: OrbitalParameters where
  "OrbitalParameters_init = (\<lambda>t. None)"

definition TimeParameters_init :: TimeParameters where
  "TimeParameters_init = (\<lambda>t. None)"

definition is_complete :: "OrbitalParameters \<Rightarrow> bool" where
  "is_complete ps = (\<not> list_ex (\<lambda>t. ps t = None) all_orbital_parameter_types)"

text \<open>
  Modelled from the spec: \<open>gypsum.navigation_message_parser\<close> is not among the sources. The
  subframe classes carry the decoded, scaled numeric fields that the world model reads, and
  a subframe is tagged with one of the five subframe IDs.
\<close>

datatype GpsSubframeId = ONE | TWO | THREE | FOUR | FIVE

record NavigationMessageSubframe1 =
  week_num :: int

record NavigationMessageSubframe2 =
  mean_anomaly_at_reference_time :: real
  eccentricity :: real
  sqrt_semi_major_axis :: real

record NavigationMessageSubframe3 =
  inclination_angle :: real
  argument_of_perigee :: real
  longitude_of_ascending_node :: real

datatype NavigationMessageSubframe =
    Subframe1 NavigationMessageSubframe1
  | Subframe2 NavigationMessageSubframe2
  | Subframe3 NavigationMessageSubframe3
  | Subframe4
  | Subframe5

fun subframe_id :: "NavigationMessageSubframe \<Rightarrow> GpsSubframeId" where
  "subframe_id (Subframe1 _) = ONE"
| "subframe_id (Subframe2 _) = TWO"
| "subframe_id (Subframe3 _) = THREE"
| "subframe_id Subframe4 = FOUR"
| "subframe_id Subframe5 = FIVE"

datatype BitValue = BIT_UNKNOWN | BIT_ZERO | BIT_ONE

text \<open>
  The event classes. The three integrator events and \<open>EmitSubframeEvent\<close> are declared in
  modules that are not among the sources; their fields are the ones the code reads. A
  \<open>DeterminedSatelliteOrbitEvent\<close> carries the parameter set as it is when the event is
  created.
\<close>

datatype Event =
    DeterminedBitPhaseEvent nat
  | CannotDetermineBitPhaseEvent real
  | EmitNavigationBitEvent BitValue
  | EmitSubframeEvent NavigationMessageSubframe
  | DeterminedSatelliteOrbitEvent nat OrbitalParameters

text \<open>The two \<open>defaultdict\<close>s, keyed by satellite ID; a missing key reads as a fresh set.\<close>

record GpsWorldModel =
  satellite_ids_to_orbital_parameters :: "nat \<Rightarrow> OrbitalParameters option"
  satellite_ids_to_time_parameters :: "nat \<Rightarrow> TimeParameters option"

definition GpsWorldModel_init :: GpsWorldModel where
  "GpsWorldModel_init =
     \<lparr> satellite_ids_to_orbital_parameters = (\<lambda>k. None),
       satellite_ids_to_time_parameters = (\<lambda>k. None) \<rparr>"

definition orbital_parameters_of :: "GpsWorldModel \<Rightarrow> nat \<Rightarrow> OrbitalParameters" where
  "orbital_parameters_of w satellite_id =
     (case satellite_ids_to_orbital_parameters w satellite_id of
        None \<Rightarrow> OrbitalParameters_init
      | Some ps \<Rightarrow> ps)"

definition time_parameters_of :: "GpsWorldModel \<Rightarrow> nat \<Rightarrow> TimeParameters" where
  "time_parameters_of w satellite_id =
     (case satellite_ids_to_time_parameters w satellite_id of
        None \<Rightarrow> TimeParameters_init
      | Some ps \<Rightarrow> ps)"

definition process_subframe1 ::
  "OrbitalParameters \<Rightarrow> TimeParameters \<Rightarrow> NavigationMessageSubframe1
     \<Rightarrow> OrbitalParameters \<times> TimeParameters" where
  "process_subframe1 orbital_parameters time_parameters subframe =
     (orbital_parameters, time_parameters(WEEK_NUMBER := Some (week_num subframe)))"

definition process_subframe2 ::
  "OrbitalParameters \<Rightarrow> TimeParameters \<Rightarrow> NavigationMessageSubframe2
     \<Rightarrow> OrbitalParameters \<times> TimeParameters" where
  "process_subframe2 orbital_parameters time_parameters subframe =
     (orbital_parameters
        (MEAN_ANOMALY_AT_REFERENCE_TIME := Some (mean_anomaly_at_reference_time subframe),
         ECCENTRICITY := Some (eccentricity subframe),
         SEMI_MAJOR_AXIS := Some ((sqrt_semi_major_axis subframe)\<^sup>2)),
      time_parameters)"

definition process_subframe3 ::
  "OrbitalParameters \<Rightarrow> TimeParameters \<Rightarrow> NavigationMessageSubframe3
     \<Rightarrow> OrbitalParameters \<times> TimeParameters" where
  "process_subframe3 orbital_parameters time_parameters subframe =
     (orbital_parameters
        (INCLINATION := Some (inclination_angle subframe),
         ARGUMENT_OF_PERIGEE := Some (argument_of_perigee subframe),
         LONGITUDE_OF_ASCENDING_NODE := Some (longitude_of_ascending_node subframe)),
      time_parameters)"

definition process_subframe4 ::
  "OrbitalParameters \<Rightarrow> TimeParameters \<Rightarrow> OrbitalParameters \<times> TimeParameters" where
  "process_subframe4 orbital_parameters time_parameters = (orbital_parameters, time_parameters)"

definition process_subframe5 ::
  "OrbitalParameters \<Rightarrow> TimeParameters \<Rightarrow> OrbitalParameters \<times> TimeParameters" where
  "process_subframe5 orbital_parameters time_parameters = (orbital_parameters, time_parameters)"

fun process_subframe ::
  "OrbitalParameters \<Rightarrow> TimeParameters \<Rightarrow> NavigationMessageSubframe
     \<Rightarrow> OrbitalParameters \<times> TimeParameters" where
  "process_subframe ops tps (Subframe1 sf) = process_subframe1 ops tps sf"
| "process_subframe ops tps (Subframe2 sf) = process_subframe2 ops tps sf"
| "process_subframe ops tps (Subframe3 sf) = process_subframe3 ops tps sf"
| "process_subframe ops tps Subframe4 = process_subframe4 ops tps"
| "process_subframe ops tps Subframe5 = process_subframe5 ops tps"

text \<open>
  \<open>handle_subframe_emitted(satellite_id, emit_subframe_event)\<close>: the world model after the
  call and the events returned. Reading the two dicts creates the satellite's entries when
  they are missing; the handlers then fill slots of those entries in place.
\<close>

definition handle_subframe_emitted ::
  "GpsWorldModel \<Rightarrow> nat \<Rightarrow> NavigationMessageSubframe \<Rightarrow> GpsWorldModel \<times> Event list" where
  "handle_subframe_emitted w satellite_id subframe =
     (let orbital_params_for_this_satellite = orbital_parameters_of w satellite_id;
          time_params_for_this_satellite = time_parameters_of w satellite_id;
          were_orbit_params_already_complete = is_complete orbital_params_for_this_satellite;
          (ops, tps) = process_subframe orbital_params_for_this_satellite
                         time_params_for_this_satellite subframe;
          w' = w\<lparr> satellite_ids_to_orbital_parameters :=
                     (satellite_ids_to_orbital_parameters w)(satellite_id := Some ops),
                   satellite_ids_to_time_parameters :=
                     (satellite_ids_to_time_parameters w)(satellite_id := Some tps) \<rparr>;
          events_to_return =
            (if \<not> were_orbit_params_already_complete then
               (if is_complete ops then [DeterminedSatelliteOrbitEvent satellite_id ops] else [])
             else [])
      in (w', events_to_return))"

text \<open>
  A run of the world model: the calls of a list, in order, each on the state the previous
  one left, with the returned events concatenated.
\<close>

fun handle_subframes ::
  "GpsWorldModel \<Rightarrow> (nat \<times> NavigationMessageSubframe) list \<Rightarrow> GpsWorldModel \<times> Event list" where
  "handle_subframes w [] = (w, [])"
| "handle_subframes w ((satellite_id, subframe) # calls) =
     (let (w1, evs1) = handle_subframe_emitted w satellite_id subframe;
          (w2, evs2) = handle_subframes w1 calls
      in (w2, evs1 @ evs2))"

fun is_orbit_determined_for :: "nat \<Rightarrow> Event \<Rightarrow> bool" where
  "is_orbit_determined_for satellite_id (DeterminedSatelliteOrbitEvent s ps) = (s = satellite_id)"
| "is_orbit_determined_for satellite_id _ = False"

section \<open>Receiver (receiver.py)\<close>

text \<open>
  Modelled from the spec: \<open>gypsum.config\<close> is not among the sources; the spec gives an
  acquisition integration period of 20 ms.
\<close>

definition ACQUISITION_INTEGRATION_PERIOD_MS :: nat where
  "ACQUISITION_INTEGRATION_PERIOD_MS = 20"

text \<open>
  Modelled from the spec: \<open>gypsum.acquisition.SatelliteAcquisitionAttemptResult\<close> is not
  among the sources; the spec describes it as the tuple below, and the code reads the
  first four fields.
\<close>

record SatelliteAcquisitionAttemptResult =
  satellite_id :: nat
  doppler_shift :: real
  carrier_wave_phase_shift :: real
  prn_phase_shift :: int
  strength :: real

datatype TrackingState = PROVISIONAL_PROBE | LOCKED

text \<open>
  The pipeline of one satellite. The integrator and the decoder are objects of classes
  that are not among the sources; their states are the type parameters \<open>'i\<close> and \<open>'d\<close>.
  \<open>pipeline_satellite\<close> and \<open>pipeline_state\<close> are the attributes \<open>satellite\<close> and \<open>state\<close>.
\<close>

record ('i, 'd) GpsSatelliteSignalProcessingPipeline =
  pipeline_satellite :: GpsSatellite
  pipeline_state :: TrackingState
  tracker :: GpsSatelliteTracker
  pseudosymbol_integrator :: 'i
  navigation_message_decoder :: 'd

text \<open>
  The code that the receiver calls and that is not among the sources, as parameters of the
  model: the two constructors, the integrator's and the decoder's step (each returns the
  object after the call and the events or the exception), the detector, and
  \<open>correlation_profile\<close>, the profile that \<open>process_samples\<close> obtains from
  \<open>frequency_domain_correlation\<close> for a tracker, a time and a \<open>samples\<close> argument.
\<close>

datatype py_value = PyFloat real | PyInt int | PyComplexArray "complex list"

record ('i, 'd) collaborators =
  NavigationBitIntegrator_init :: 'i
  NavigationMessageDecoder_init :: 'd
  correlation_profile :: "GpsSatelliteTracker \<Rightarrow> real \<Rightarrow> py_value \<Rightarrow> complex list"
  process_pseudosymbol :: "'i \<Rightarrow> NavigationBitPseudosymbol \<Rightarrow> 'i \<times> (error + Event list)"
  process_bit_from_satellite :: "'d \<Rightarrow> BitValue \<Rightarrow> 'd \<times> (error + Event list)"
  detect_satellites_in_antenna_data ::
    "nat list \<Rightarrow> complex list \<Rightarrow> SatelliteAcquisitionAttemptResult list"

text \<open>
  A call \<open>tracker.process_samples(a, b)\<close> with arguments of any type: Python binds \<open>a\<close> to
  \<open>seconds_since_start\<close> and \<open>b\<close> to \<open>samples\<close> by position. The first statement of the
  method evaluates \<open>seconds_since_start % 1\<close>. For a number the method runs as modelled by
  \<open>process_samples\<close>; for a complex array numpy has no remainder and raises TypeError, and
  the tracker is left as it was.
\<close>

definition process_samples_call ::
  "(GpsSatelliteTracker \<Rightarrow> real \<Rightarrow> py_value \<Rightarrow> complex list)
     \<Rightarrow> GpsSatelliteTracker \<Rightarrow> py_value \<Rightarrow> py_value
     \<Rightarrow> GpsSatelliteTracker \<times> (error + NavigationBitPseudosymbol)" where
  "process_samples_call correlate t seconds_since_start samples =
     (case seconds_since_start of
        PyFloat s \<Rightarrow> process_samples t s (correlate t s samples)
      | PyInt n \<Rightarrow> process_samples t (real_of_int n) (correlate t (real_of_int n) samples)
      | PyComplexArray a \<Rightarrow> (t, Inl TypeError))"

text \<open>
  \<open>GpsSatelliteSignalProcessingPipeline.__init__\<close>. The tracker is constructed as
  \<open>GpsSatelliteTracker(tracking_params)\<close>, with no second argument.
\<close>

definition GpsSatelliteSignalProcessingPipeline_init ::
  "('i, 'd) collaborators \<Rightarrow> GpsSatellite \<Rightarrow> SatelliteAcquisitionAttemptResult
     \<Rightarrow> error + ('i, 'd) GpsSatelliteSignalProcessingPipeline" where
  "GpsSatelliteSignalProcessingPipeline_init env sat acquisition_result =
     (let params = \<lparr> satellite = sat,
                      current_doppler_shift = doppler_shift acquisition_result,
                      current_carrier_wave_phase_shift = carrier_wave_phase_shift acquisition_result,
                      current_prn_code_phase_shift = prn_phase_shift acquisition_result,
                      doppler_shifts = [],
                      carrier_wave_phases = [],
                      carrier_wave_phase_errors = [],
                      navigation_bit_pseudosymbols = [] \<rparr>
      in case GpsSatelliteTracker_init params None of
           Inl e \<Rightarrow> Inl e
         | Inr trk \<Rightarrow>
             Inr \<lparr> pipeline_satellite = sat,
                   pipeline_state = PROVISIONAL_PROBE,
                   tracker = trk,
                   pseudosymbol_integrator = NavigationBitIntegrator_init env,
                   navigation_message_decoder = NavigationMessageDecoder_init env \<rparr>)"

subsection \<open>Event handlers of the pipeline\<close>

text \<open>
  Each handler returns the pipeline after the call and the exception raised, if any.
\<close>

definition handle_integrator_determined_bit_phase ::
  "('i, 'd) GpsSatelliteSignalProcessingPipeline \<Rightarrow> nat
     \<Rightarrow> ('i, 'd) GpsSatelliteSignalProcessingPipeline \<times> error option" where
  "handle_integrator_determined_bit_phase pl bit_phase = (pl, None)"

definition handle_integrator_cannot_determine_bit_phase ::
  "('i, 'd) GpsSatelliteSignalProcessingPipeline \<Rightarrow> real
     \<Rightarrow> ('i, 'd) GpsSatelliteSignalProcessingPipeline \<times> error option" where
  "handle_integrator_cannot_determine_bit_phase pl confidence = (pl, Some NotImplementedError)"

definition handle_integrator_emitted_bit ::
  "('i, 'd) collaborators \<Rightarrow> ('i, 'd) GpsSatelliteSignalProcessingPipeline \<Rightarrow> BitValue
     \<Rightarrow> ('i, 'd) GpsSatelliteSignalProcessingPipeline \<times> error option" where
  "handle_integrator_emitted_bit env pl bit_value =
     (let (dec, res) = process_bit_from_satellite env (navigation_message_decoder pl) bit_value;
          pl' = pl\<lparr> navigation_message_decoder := dec \<rparr>
      in case res of Inl e \<Rightarrow> (pl', Some e) | Inr decoder_events \<Rightarrow> (pl', None))"

text \<open>
  The dispatch loop of \<open>process_samples\<close>: the callback is looked up by the event's class,
  an event of another class raises UnknownEventError, and an exception ends the loop.
\<close>

fun dispatch_integrator_events ::
  "('i, 'd) collaborators \<Rightarrow> ('i, 'd) GpsSatelliteSignalProcessingPipeline \<Rightarrow> Event list
     \<Rightarrow> ('i, 'd) GpsSatelliteSignalProcessingPipeline \<times> error option" where
  "dispatch_integrator_events env pl [] = (pl, None)"
| "dispatch_integrator_events env pl (event # events) =
     (let (pl', exc) =
            (case event of
               DeterminedBitPhaseEvent bit_phase \<Rightarrow>
                 handle_integrator_determined_bit_phase pl bit_phase
             | CannotDetermineBitPhaseEvent confidence \<Rightarrow>
                 handle_integrator_cannot_determine_bit_phase pl confidence
             | EmitNavigationBitEvent bit_value \<Rightarrow>
                 handle_integrator_emitted_bit env pl bit_value
             | _ \<Rightarrow> (pl, Some UnknownEventError))
      in case exc of
           Some e \<Rightarrow> (pl', Some e)
         | None \<Rightarrow> dispatch_integrator_events env pl' events)"

text \<open>
  \<open>GpsSatelliteSignalProcessingPipeline.process_samples(samples, sample_index)\<close>. It calls
  \<open>self.tracker.process_samples(samples, sample_index)\<close>: the array of samples takes the
  place of \<open>seconds_since_start\<close> and the sample index the place of \<open>samples\<close>.
\<close>

definition pipeline_process_samples ::
  "('i, 'd) collaborators \<Rightarrow> ('i, 'd) GpsSatelliteSignalProcessingPipeline
     \<Rightarrow> complex list \<Rightarrow> nat
     \<Rightarrow> ('i, 'd) GpsSatelliteSignalProcessingPipeline \<times> error option" where
  "pipeline_process_samples env pl samples sample_index =
     (let (trk, res) = process_samples_call (correlation_profile env) (tracker pl)
                         (PyComplexArray samples) (PyInt (int sample_index));
          pl1 = pl\<lparr> tracker := trk \<rparr>
      in case res of
           Inl e \<Rightarrow> (pl1, Some e)
         | Inr pseudosymbol \<Rightarrow>
             (let (integ, res2) = process_pseudosymbol env (pseudosymbol_integrator pl1) pseudosymbol;
                  pl2 = pl1\<lparr> pseudosymbol_integrator := integ \<rparr>
              in case res2 of
                   Inl e \<Rightarrow> (pl2, Some e)
                 | Inr integrator_events \<Rightarrow> dispatch_integrator_events env pl2 integrator_events))"

subsection \<open>The receiver\<close>

text \<open>The messages that \<open>step\<close> and \<open>_perform_acquisition\<close> write to the logger.\<close>

datatype log_message =
    WillPerformAcquisitionSearch nat
  | SkippingAcquisitionAttempt
  | PerformingAcquisitionSearch nat

text \<open>
  The receiver object. The dict of pipelines keeps insertion order and is an association
  list; \<open>logged\<close> is the sequence of messages written to the logger so far.
\<close>

record ('i, 'd) GpsReceiver =
  satellites_by_id :: "nat \<Rightarrow> GpsSatellite option"
  satellite_ids_eligible_for_acquisition :: "nat list"
  rolling_samples_buffer :: "complex list list"
  tracked_satellite_ids_to_processing_pipelines ::
    "(nat \<times> ('i, 'd) GpsSatelliteSignalProcessingPipeline) list"
  logged :: "log_message list"

text \<open>
  \<open>GpsReceiver.__init__\<close>; the replica table comes from \<open>generate_replica_prn_signals\<close>,
  which is not among the sources, and is the argument.
\<close>

definition GpsReceiver_init :: "(nat \<Rightarrow> GpsSatellite option) \<Rightarrow> ('i, 'd) GpsReceiver" where
  "GpsReceiver_init replicas =
     \<lparr> satellites_by_id = replicas,
       satellite_ids_eligible_for_acquisition = [32],
       rolling_samples_buffer = [],
       tracked_satellite_ids_to_processing_pipelines = [],
       logged = [] \<rparr>"

text \<open>\<open>deque(maxlen=n).append\<close>: a full deque drops its oldest entry.\<close>

definition deque_append :: "nat \<Rightarrow> 'a list \<Rightarrow> 'a \<Rightarrow> 'a list" where
  "deque_append maxlen buf x = (let b = buf @ [x] in drop (length b - maxlen) b)"

text \<open>The loop of \<open>_perform_acquisition\<close> over the new detections.\<close>

fun install_pipelines ::
  "('i, 'd) collaborators \<Rightarrow> ('i, 'd) GpsReceiver \<Rightarrow> SatelliteAcquisitionAttemptResult list
     \<Rightarrow> ('i, 'd) GpsReceiver \<times> error option" where
  "install_pipelines env r [] = (r, None)"
| "install_pipelines env r (satellite_acquisition_result # rest) =
     (let sid = satellite_id satellite_acquisition_result
      in case satellites_by_id r sid of
           None \<Rightarrow> (r, Some KeyError)
         | Some sat \<Rightarrow>
             (case GpsSatelliteSignalProcessingPipeline_init env sat satellite_acquisition_result of
                Inl e \<Rightarrow> (r, Some e)
              | Inr pl \<Rightarrow>
                  install_pipelines env
                    (r\<lparr> tracked_satellite_ids_to_processing_pipelines :=
                          AList.update sid pl (tracked_satellite_ids_to_processing_pipelines r) \<rparr>)
                    rest))"

definition perform_acquisition ::
  "('i, 'd) collaborators \<Rightarrow> ('i, 'd) GpsReceiver \<Rightarrow> ('i, 'd) GpsReceiver \<times> error option" where
  "perform_acquisition env r =
     (if length (rolling_samples_buffer r) < ACQUISITION_INTEGRATION_PERIOD_MS then
        (r\<lparr> logged := logged r @ [SkippingAcquisitionAttempt] \<rparr>, None)
      else
        (let r1 = r\<lparr> logged := logged r @
                      [PerformingAcquisitionSearch (length (satellite_ids_eligible_for_acquisition r))] \<rparr>;
             samples_for_integration_period = concat (rolling_samples_buffer r1);
             newly_acquired_satellites =
               detect_satellites_in_antenna_data env
                 (satellite_ids_eligible_for_acquisition r1) samples_for_integration_period
         in install_pipelines env r1 newly_acquired_satellites))"

text \<open>The loop of \<open>_track_acquired_satellites\<close> over the dict's items.\<close>

fun track_pipelines ::
  "('i, 'd) collaborators \<Rightarrow> (nat \<times> ('i, 'd) GpsSatelliteSignalProcessingPipeline) list
     \<Rightarrow> complex list \<Rightarrow> nat
     \<Rightarrow> (nat \<times> ('i, 'd) GpsSatelliteSignalProcessingPipeline) list \<times> error option" where
  "track_pipelines env [] samples sample_index = ([], None)"
| "track_pipelines env ((sid, pl) # rest) samples sample_index =
     (let (pl', exc) = pipeline_process_samples env pl samples sample_index
      in case exc of
           Some e \<Rightarrow> ((sid, pl') # rest, Some e)
         | None \<Rightarrow>
             (let (rest', exc') = track_pipelines env rest samples sample_index
              in ((sid, pl') # rest', exc')))"

definition track_acquired_satellites ::
  "('i, 'd) collaborators \<Rightarrow> ('i, 'd) GpsReceiver \<Rightarrow> complex list \<Rightarrow> nat
     \<Rightarrow> ('i, 'd) GpsReceiver \<times> error option" where
  "track_acquired_satellites env r samples sample_index =
     (let (tracked, exc) =
            track_pipelines env (tracked_satellite_ids_to_processing_pipelines r) samples sample_index
      in (r\<lparr> tracked_satellite_ids_to_processing_pipelines := tracked \<rparr>, exc))"

text \<open>
  \<open>GpsReceiver.step\<close>. The provider's cursor and the millisecond of samples it hands out
  are the last two arguments. The result is the receiver after the call and the exception
  that left \<open>step\<close>, if any.
\<close>

definition step ::
  "('i, 'd) collaborators \<Rightarrow> ('i, 'd) GpsReceiver \<Rightarrow> complex list \<Rightarrow> nat
     \<Rightarrow> ('i, 'd) GpsReceiver \<times> error option" where
  "step env r samples sample_index =
     (let r1 = r\<lparr> rolling_samples_buffer :=
                    deque_append ACQUISITION_INTEGRATION_PERIOD_MS (rolling_samples_buffer r) samples \<rparr>;
          (r2, exc) =
            (if length (tracked_satellite_ids_to_processing_pipelines r1) < 1 then
               perform_acquisition env
                 (r1\<lparr> logged := logged r1 @
                        [WillPerformAcquisitionSearch
                           (length (tracked_satellite_ids_to_processing_pipelines r1))] \<rparr>)
             else (r1, None))
      in case exc of
           Some e \<Rightarrow> (r2, Some e)
         | None \<Rightarrow> track_acquired_satellites env r2 samples sample_index)"

section \<open>Definitions used in the statements\<close>

text \<open>
  The tracker as \<open>_test5\<close> finds it inside \<open>process_samples\<close>: the prompt peak's real and
  imaginary parts have been appended to \<open>_is\<close> and \<open>_qs\<close>, the phase-error history is
  still the one from before the call. This is the state on which the step asks whether the
  tracker is locked.
\<close>

definition before_loop_filter :: "GpsSatelliteTracker \<Rightarrow> complex \<Rightarrow> GpsSatelliteTracker" where
  "before_loop_filter t peak = t\<lparr> prompt_is := prompt_is t @ [Re peak], prompt_qs := prompt_qs t @ [Im peak] \<rparr>"

text \<open>
  Concrete inputs for the evaluations below: satellite 32, a tracker that has just been
  handed over from acquisition, and \<open>settled_tracker\<close>, the same tracker with 250
  milliseconds of zero phase error and given \<open>_is\<close> and \<open>_qs\<close> histories.
\<close>

definition example_satellite :: GpsSatellite where
  "example_satellite = \<lparr> sat_id = 32, prn_as_complex = [] \<rparr>"

definition example_tracker :: GpsSatelliteTracker where
  "example_tracker =
     \<lparr> tracking_params =
         \<lparr> satellite = example_satellite,
           current_doppler_shift = 1200,
           current_carrier_wave_phase_shift = 1,
           current_prn_code_phase_shift = 2045,
           doppler_shifts = [],
           carrier_wave_phases = [],
           carrier_wave_phase_errors = [],
           navigation_bit_pseudosymbols = [] \<rparr>,
       loop_bandwidth = 6, loop_gain_phase = 0, loop_gain_freq = 0,
       prompt_is = [], prompt_qs = [], iq_angles = [], phase_errors = [], carrier_phases = [] \<rparr>"

text \<open>
  The three lock criteria, each on its own. The variance is the population variance; a
  criterion over an empty half or an empty pole does not hold (numpy yields NaN there, and
  every comparison with NaN is false).
\<close>

definition variance :: "real list \<Rightarrow> real" where
  "variance xs = (\<Sum>x\<leftarrow>xs. (x - sum_list xs / real (length xs))\<^sup>2) / real (length xs)"

definition phase_error_variance_criterion :: "GpsSatelliteTracker \<Rightarrow> bool" where
  "phase_error_variance_criterion t =
     (variance (py_last 250 (carrier_wave_phase_errors (tracking_params t))) < 900)"

definition i_channel_criterion :: "GpsSatelliteTracker \<Rightarrow> bool" where
  "i_channel_criterion t =
     (let recent = py_last 250 (prompt_is t);
          positive_half = filter (\<lambda>x. 0 \<le> x) recent;
          negative_half = filter (\<lambda>x. x < 0) recent
      in positive_half \<noteq> [] \<and> negative_half \<noteq> []
         \<and> (variance positive_half + variance negative_half) / 2 < 2)"

definition constellation_points :: "GpsSatelliteTracker \<Rightarrow> complex list" where
  "constellation_points t = map (\<lambda>(i, q). Complex i q) (zip (prompt_is t) (prompt_qs t))"

definition constellation_criterion :: "GpsSatelliteTracker \<Rightarrow> bool" where
  "constellation_criterion t =
     (let left_pole = filter (\<lambda>p. Re p < 0) (constellation_points t)
      in left_pole \<noteq> []
         \<and> \<bar>centered_angle_of (sum_list left_pole / of_nat (length left_pole))\<bar> < 6)"

definition settled_tracker :: "real list \<Rightarrow> real list \<Rightarrow> GpsSatelliteTracker" where
  "settled_tracker is_hist qs_hist =
     example_tracker
       \<lparr> tracking_params :=
           (tracking_params example_tracker)\<lparr> carrier_wave_phase_errors := replicate 250 0 \<rparr>,
         prompt_is := is_hist, prompt_qs := qs_hist \<rparr>"

text \<open>
  Two subframes that together fill all six orbital slots.
\<close>

definition example_subframe2 :: NavigationMessageSubframe where
  "example_subframe2 =
     Subframe2 \<lparr> mean_anomaly_at_reference_time = 1 / 4, eccentricity = 1 / 100,
                 sqrt_semi_major_axis = 5153 \<rparr>"

definition example_subframe3 :: NavigationMessageSubframe where
  "example_subframe3 =
     Subframe3 \<lparr> inclination_angle = 3 / 10, argument_of_perigee = 1 / 2,
                 longitude_of_ascending_node = - (1 / 5) \<rparr>"

text \<open>
  Concrete collaborators and receivers for the evaluations below. With
  \<open>quiet_collaborators\<close> the integrator and the decoder emit nothing, the correlation
  profile is empty and the detector finds nothing; \<open>detecting_collaborators\<close> differs in a
  detector that reports satellite 32 whenever it is asked. \<open>primed_receiver\<close> is a fresh
  receiver whose rolling buffer is full, \<open>fresh_receiver\<close> a receiver as its constructor
  leaves it.
\<close>

definition quiet_collaborators :: "(unit, unit) collaborators" where
  "quiet_collaborators =
     \<lparr> NavigationBitIntegrator_init = (),
       NavigationMessageDecoder_init = (),
       correlation_profile = (\<lambda>t seconds_since_start samples. []),
       process_pseudosymbol = (\<lambda>i pseudosymbol. (i, Inr [])),
       process_bit_from_satellite = (\<lambda>d bit_value. (d, Inr [])),
       detect_satellites_in_antenna_data = (\<lambda>ids samples. []) \<rparr>"

definition example_acquisition_result :: SatelliteAcquisitionAttemptResult where
  "example_acquisition_result =
     \<lparr> satellite_id = 32, doppler_shift = 1200, carrier_wave_phase_shift = 1,
       prn_phase_shift = 500, strength = 10 \<rparr>"

definition detecting_collaborators :: "(unit, unit) collaborators" where
  "detecting_collaborators =
     quiet_collaborators
       \<lparr> detect_satellites_in_antenna_data := (\<lambda>ids samples. [example_acquisition_result]) \<rparr>"

definition example_replicas :: "nat \<Rightarrow> GpsSatellite option" where
  "example_replicas k = (if k = 32 then Some example_satellite else None)"

definition primed_receiver :: "(unit, unit) GpsReceiver" where
  "primed_receiver =
     (GpsReceiver_init example_replicas) \<lparr> rolling_samples_buffer := replicate 20 [] \<rparr>"







section \<open>Properties\<close>

lemma py_fmod_range:
  assumes "0 < m"
  shows "0 \<le> py_fmod x m \<and> py_fmod x m < m"
proof -
  define q where "q = \<lfloor>x / m\<rfloor>"
  have lo: "of_int q \<le> x / m" and hi: "x / m < of_int q + 1"
    unfolding q_def by linarith+
  from lo assms have "of_int q * m \<le> x"
    by (simp add: pos_le_divide_eq)
  moreover from hi assms have "x < (of_int q + 1) * m"
    by (simp add: pos_divide_less_eq)
  ultimately show ?thesis
    unfolding py_fmod_def q_def [symmetric] by (simp add: algebra_simps)
qed

lemma argmax_from_bound:
  "best_i < i \<Longrightarrow> argmax_from xs i best_i best < i + length xs"
  by (induction xs i best_i best rule: argmax_from.induct) auto

lemma np_argmax_bound:
  "np_argmax xs = Inr k \<Longrightarrow> k < length xs"
  using argmax_from_bound [of 0 1]
  by (auto simp: np_argmax_def split: list.splits)

lemma argmax_from_max:
  assumes "best_i < i" "length pre = i" "pre ! best_i = best" "\<forall>j<i. pre ! j \<le> best"
  shows "\<forall>j < i + length xs. (pre @ xs) ! j \<le> (pre @ xs) ! argmax_from xs i best_i best"
  using assms
proof (induction xs i best_i best arbitrary: pre rule: argmax_from.induct)
  case (1 i best_i best)
  then show ?case by (simp add: nth_append)
next
  case (2 x xs i best_i best)
  show ?case
  proof (cases "best < x")
    case True
    have "\<forall>j<Suc i + length xs. ((pre @ [x]) @ xs) ! j \<le> ((pre @ [x]) @ xs) ! argmax_from xs (Suc i) i x"
    proof (rule "2.IH"(1) [OF True])
      show "i < Suc i" by simp
      show "length (pre @ [x]) = Suc i" using "2.prems" by simp
      show "(pre @ [x]) ! i = x" using "2.prems" by (simp add: nth_append)
      show "\<forall>j<Suc i. (pre @ [x]) ! j \<le> x"
        using "2.prems" True by (auto simp: nth_append less_Suc_eq)
    qed
    with True show ?thesis by simp
  next
    case False
    have "\<forall>j<Suc i + length xs. ((pre @ [x]) @ xs) ! j \<le> ((pre @ [x]) @ xs) ! argmax_from xs (Suc i) best_i best"
    proof (rule "2.IH"(2) [OF False])
      show "best_i < Suc i" using "2.prems" by simp
      show "length (pre @ [x]) = Suc i" using "2.prems" by simp
      show "(pre @ [x]) ! best_i = best" using "2.prems" by (simp add: nth_append)
      show "\<forall>j<Suc i. (pre @ [x]) ! j \<le> best"
        using "2.prems" False by (auto simp: nth_append less_Suc_eq)
    qed
    with False show ?thesis by simp
  qed
qed

lemma np_argmax_max:
  assumes "np_argmax xs = Inr k"
  shows "\<forall>j<length xs. xs ! j \<le> xs ! k"
proof -
  from assms obtain x rest where xs: "xs = x # rest" and k: "k = argmax_from rest 1 0 x"
    by (auto simp: np_argmax_def split: list.splits)
  have "\<forall>j < 1 + length rest. ([x] @ rest) ! j \<le> ([x] @ rest) ! argmax_from rest 1 0 x"
    by (rule argmax_from_max) auto
  then show ?thesis using xs k by simp
qed

lemma np_argmax_nonempty:
  "xs \<noteq> [] \<Longrightarrow> \<exists>k. np_argmax xs = Inr k"
  by (cases xs) (auto simp: np_argmax_def)

lemma test5_params:
  "current_prn_code_phase_shift (tracking_params (test5 t z)) = current_prn_code_phase_shift (tracking_params t)"
  "current_carrier_wave_phase_shift (tracking_params (test5 t z)) =
     py_fmod (current_carrier_wave_phase_shift (tracking_params t)
        + Re z * Im z * fst (calculate_loop_filter_alpha_and_beta (if is_locked t then 3 else 6))) math_tau"
  "current_doppler_shift (tracking_params (test5 t z)) =
     current_doppler_shift (tracking_params t)
        + Re z * Im z * snd (calculate_loop_filter_alpha_and_beta (if is_locked t then 3 else 6))"
  by (simp_all add: test5_def Let_def split: prod.splits)

lemma is_locked_cong:
  "carrier_wave_phase_errors (tracking_params t) = carrier_wave_phase_errors (tracking_params t') \<Longrightarrow>
   prompt_is t = prompt_is t' \<Longrightarrow> prompt_qs t = prompt_qs t' \<Longrightarrow> is_locked t = is_locked t'"
  by (simp add: is_locked_def)

lemma process_samples_code_phase:
  assumes "np_argmax (map cmod C) = Inr k"
  shows "current_prn_code_phase_shift (tracking_params (fst (process_samples t s C))) =
         slide_code_phase (current_prn_code_phase_shift (tracking_params t)) (recenter_offset k)"
  using assms by (simp add: process_samples_def Let_def test5_params)

lemma process_samples_carrier_phase:
  assumes "np_argmax (map cmod C) = Inr k"
  shows "current_carrier_wave_phase_shift (tracking_params (fst (process_samples t s C))) =
     py_fmod (current_carrier_wave_phase_shift (tracking_params t)
        + Re (C ! k) * Im (C ! k) *
          fst (calculate_loop_filter_alpha_and_beta (if is_locked (before_loop_filter t (C ! k)) then 3 else 6))) math_tau"
proof -
  have "is_locked (t\<lparr>tracking_params := x, prompt_is := prompt_is t @ [Re (C ! k)], prompt_qs := prompt_qs t @ [Im (C ! k)]\<rparr>)
      = is_locked (before_loop_filter t (C ! k))"
    if "carrier_wave_phase_errors x = carrier_wave_phase_errors (tracking_params t)" for x
    using that by (intro is_locked_cong) (simp_all add: before_loop_filter_def)
  then show ?thesis
    using assms by (simp add: process_samples_def Let_def test5_params)
qed

lemma process_samples_doppler:
  assumes "np_argmax (map cmod C) = Inr k"
  shows "current_doppler_shift (tracking_params (fst (process_samples t s C))) =
     current_doppler_shift (tracking_params t)
        + Re (C ! k) * Im (C ! k) *
          snd (calculate_loop_filter_alpha_and_beta (if is_locked (before_loop_filter t (C ! k)) then 3 else 6))"
proof -
  have "is_locked (t\<lparr>tracking_params := x, prompt_is := prompt_is t @ [Re (C ! k)], prompt_qs := prompt_qs t @ [Im (C ! k)]\<rparr>)
      = is_locked (before_loop_filter t (C ! k))"
    if "carrier_wave_phase_errors x = carrier_wave_phase_errors (tracking_params t)" for x
    using that by (intro is_locked_cong) (simp_all add: before_loop_filter_def)
  then show ?thesis
    using assms by (simp add: process_samples_def Let_def test5_params)
qed

lemma process_samples_result:
  assumes "np_argmax (map cmod C) = Inr k"
  shows "snd (process_samples t s C) = from_val (py_int (np_sign (Re (C ! k))))"
  using assms by (simp add: process_samples_def Let_def)

lemma process_samples_empty:
  "process_samples t s [] = (t, Inl ValueError)"
  by (simp add: process_samples_def np_argmax_def)

lemma calculate_loop_filter_alpha_and_beta_eq:
  "calculate_loop_filter_alpha_and_beta B =
     (4 * (sqrt 2 / 2) * B * (1 / real_of_int SAMPLES_PER_SECOND),
      4 * B\<^sup>2 * (1 / real_of_int SAMPLES_PER_SECOND))"
proof -
  have "1 / sqrt 2 = sqrt 2 / 2"
    by (simp add: real_div_sqrt)
  then show ?thesis
    by (simp only: calculate_loop_filter_alpha_and_beta_def Let_def)
qed

lemma from_val_sign:
  "from_val (py_int (np_sign x)) =
     (if 0 < x then Inr PS_ONE else if x < 0 then Inr PS_MINUS_ONE else Inl KeyError)"
  by (simp add: from_val_def py_int_def np_sign_def ceiling_minus)

lemma slide_code_phase_range:
  "0 \<le> slide_code_phase p c \<and> slide_code_phase p c < 2046"
  by (simp add: slide_code_phase_def SAMPLES_PER_PRN_TRANSMISSION_def Let_def)

lemma recenter_offset_eq:
  "recenter_offset k = (if 1023 < k then int k - 2046 else int k)"
  by (auto simp: recenter_offset_def SAMPLES_PER_PRN_TRANSMISSION_def)

lemma process_samples_returns:
  assumes "snd (process_samples t s C) = Inr ps"
  shows "\<exists>k. np_argmax (map cmod C) = Inr k"
proof (cases C)
  case Nil
  with assms show ?thesis by (simp add: process_samples_empty)
next
  case (Cons z zs)
  then show ?thesis by (simp add: np_argmax_def)
qed

text \<open>
  Claim C5, amended. Let \<open>k\<close> be the offset of the prompt correlation peak. When the real
  part of the peak is not zero, \<open>process_samples\<close> returns a pseudosymbol whose value is
  the sign of that real part, and the value is \<open>-1\<close> or \<open>+1\<close>. When the real part is zero
  the call returns nothing: \<open>from_val\<close> has no entry for 0 and raises KeyError.
\<close>

theorem C5_pseudosymbol_is_sign_of_nonzero_peak:
  assumes "np_argmax (map cmod C) = Inr k"
  shows "(Re (C ! k) \<noteq> 0 \<longrightarrow>
            (\<exists>ps. snd (process_samples t s C) = Inr ps
                  \<and> real_of_int (as_val ps) = sgn (Re (C ! k))
                  \<and> as_val ps \<in> {- 1, 1}))
       \<and> (Re (C ! k) = 0 \<longrightarrow> snd (process_samples t s C) = Inl KeyError)"
  using assms
  by (auto simp: process_samples_result from_val_sign sgn_real_def)

lemma cmod_3_4: "cmod (Complex 3 4) = 5"
  by (simp add: cmod_def real_sqrt_unique)

theorem C5_witness:
  "np_argmax (map cmod [Complex 0 1, Complex 3 4]) = Inr 1
   \<and> snd (process_samples example_tracker 0 [Complex 0 1, Complex 3 4]) = Inr PS_ONE"
proof -
  have h: "np_argmax (map cmod [Complex 0 1, Complex 3 4]) = Inr 1"
    by (simp add: np_argmax_def cmod_3_4 cmod_def)
  from C5_pseudosymbol_is_sign_of_nonzero_peak [OF h, of example_tracker 0]
  obtain ps where "snd (process_samples example_tracker 0 [Complex 0 1, Complex 3 4]) = Inr ps"
    and "real_of_int (as_val ps) = sgn 3"
    by auto
  then show ?thesis using h by (cases ps) auto
qed

text \<open>
  Claim C5 as stated fails: a peak with real part zero is not turned into \<open>+1\<close>; the call
  ends in KeyError.
\<close>

theorem C5_counterexample:
  "Re ([Complex 0 1] ! 0) = 0
   \<and> snd (process_samples example_tracker 0 [Complex 0 1]) = Inl KeyError"
  by (simp add: process_samples_def np_argmax_def Let_def from_val_def py_int_def np_sign_def)

text \<open>
  Claim C6. Whenever \<open>process_samples\<close> returns, the PRN code phase it leaves is in
  \<open>[0, 2046)\<close> and the carrier wave phase is in \<open>[0, 2\<pi>)\<close>.
\<close>

theorem C6_phases_in_range_on_return:
  assumes "snd (process_samples t s C) = Inr ps"
  shows "0 \<le> current_prn_code_phase_shift (tracking_params (fst (process_samples t s C)))
       \<and> current_prn_code_phase_shift (tracking_params (fst (process_samples t s C))) < 2046
       \<and> 0 \<le> current_carrier_wave_phase_shift (tracking_params (fst (process_samples t s C)))
       \<and> current_carrier_wave_phase_shift (tracking_params (fst (process_samples t s C))) < 2 * pi"
proof -
  from process_samples_returns [OF assms] obtain k where k: "np_argmax (map cmod C) = Inr k" ..
  have "0 < math_tau" by (simp add: math_tau_def)
  from py_fmod_range [OF this] show ?thesis
    by (simp add: process_samples_code_phase [OF k] process_samples_carrier_phase [OF k]
        slide_code_phase_range math_tau_def)
qed

theorem C6_witness:
  "snd (process_samples example_tracker 0 [Complex 0 1, Complex 3 4]) = Inr PS_ONE
   \<and> current_prn_code_phase_shift
       (tracking_params (fst (process_samples example_tracker 0 [Complex 0 1, Complex 3 4]))) = 0
   \<and> current_carrier_wave_phase_shift
       (tracking_params (fst (process_samples example_tracker 0 [Complex 0 1, Complex 3 4]))) < 2 * pi"
proof -
  have h: "np_argmax (map cmod [Complex 0 1, Complex 3 4]) = Inr 1"
    by (simp add: np_argmax_def cmod_3_4 cmod_def)
  have r: "snd (process_samples example_tracker 0 [Complex 0 1, Complex 3 4]) = Inr PS_ONE"
    by (simp add: process_samples_result [OF h] from_val_sign)
  have c: "current_prn_code_phase_shift
       (tracking_params (fst (process_samples example_tracker 0 [Complex 0 1, Complex 3 4]))) = 0"
    by (simp add: process_samples_code_phase [OF h] slide_code_phase_def recenter_offset_def
        SAMPLES_PER_PRN_TRANSMISSION_def example_tracker_def)
  from C6_phases_in_range_on_return [OF r] r c show ?thesis by simp
qed

text \<open>
  Claim C7. With fewer than 250 entries of carrier-phase-error history, \<open>_is_locked\<close>
  reports the satellite as not locked.
\<close>

theorem C7_no_lock_before_250_entries:
  assumes "length (carrier_wave_phase_errors (tracking_params t)) < 250"
  shows "\<not> is_locked t"
  using assms by (simp add: is_locked_def)

theorem C7_witness:
  "length (carrier_wave_phase_errors (tracking_params example_tracker)) < 250
   \<and> \<not> is_locked example_tracker"
proof -
  have h: "length (carrier_wave_phase_errors (tracking_params example_tracker)) < 250"
    by (simp add: example_tracker_def)
  from C7_no_lock_before_250_entries [OF h] h show ?thesis by simp
qed

text \<open>
  Claim C8. The peak offset \<open>k\<close> is a position of the largest magnitude in the correlation
  profile. It is recentred (\<open>k > 1023\<close> becomes \<open>k - 2046\<close>), the code phase moves by \<open>+1\<close>
  for a positive recentred offset, by \<open>-1\<close> for a negative one and not at all for zero, and
  the result is reduced modulo 2046.
\<close>

theorem C8_code_phase_moves_one_sample_towards_peak:
  assumes "np_argmax (map cmod C) = Inr k"
  shows "k < length C
       \<and> (\<forall>j<length C. cmod (C ! j) \<le> cmod (C ! k))
       \<and> current_prn_code_phase_shift (tracking_params (fst (process_samples t s C))) =
           (let centred = (if 1023 < k then int k - 2046 else int k);
                move = (if 0 < centred then 1 else if centred < 0 then - 1 else 0)
            in (current_prn_code_phase_shift (tracking_params t) + move) mod 2046)"
proof -
  have "k < length C" using np_argmax_bound [OF assms] by simp
  moreover have "\<forall>j<length C. cmod (C ! j) \<le> cmod (C ! k)"
    using np_argmax_max [OF assms] \<open>k < length C\<close> by simp
  moreover have "current_prn_code_phase_shift (tracking_params (fst (process_samples t s C))) =
           (let centred = (if 1023 < k then int k - 2046 else int k);
                move = (if 0 < centred then 1 else if centred < 0 then - 1 else 0)
            in (current_prn_code_phase_shift (tracking_params t) + move) mod 2046)"
    by (simp add: process_samples_code_phase [OF assms] slide_code_phase_def recenter_offset_eq
        SAMPLES_PER_PRN_TRANSMISSION_def Let_def)
  ultimately show ?thesis by blast
qed

theorem C8_witness:
  "np_argmax (map cmod [Complex 0 1, Complex 3 4]) = Inr 1
   \<and> current_prn_code_phase_shift (tracking_params example_tracker) = 2045
   \<and> current_prn_code_phase_shift
       (tracking_params (fst (process_samples example_tracker 0 [Complex 0 1, Complex 3 4]))) = 0"
proof -
  have h: "np_argmax (map cmod [Complex 0 1, Complex 3 4]) = Inr 1"
    by (simp add: np_argmax_def cmod_3_4 cmod_def)
  from C8_code_phase_moves_one_sample_towards_peak [OF h, of example_tracker 0] h
  show ?thesis by (simp add: example_tracker_def)
qed

text \<open>
  Claim C9. With \<open>P\<close> the prompt peak, \<open>e = Re P * Im P\<close>, \<open>B\<close> equal to 3 when the tracker is
  locked and to 6 otherwise, and \<open>T = 1 / f\<^sub>s\<close>, the gains that the step applies are
  \<open>\<alpha> = 4 * (sqrt 2 / 2) * B * T\<close> and \<open>\<beta> = 4 * B\<^sup>2 * T\<close>; the carrier phase becomes
  \<open>(\<phi> + \<alpha> * e) mod 2\<pi>\<close> and the Doppler shift becomes \<open>f\<^sub>d + \<beta> * e\<close>.
\<close>

theorem C9_loop_filter_gains_and_updates:
  assumes "np_argmax (map cmod C) = Inr k"
  shows "(let P = C ! k;
              e = Re P * Im P;
              B = (if is_locked (before_loop_filter t P) then 3 else 6);
              T = 1 / real_of_int SAMPLES_PER_SECOND;
              \<alpha> = 4 * (sqrt 2 / 2) * B * T;
              \<beta> = 4 * B\<^sup>2 * T;
              x = current_carrier_wave_phase_shift (tracking_params t) + \<alpha> * e;
              t' = fst (process_samples t s C)
          in calculate_loop_filter_alpha_and_beta B = (\<alpha>, \<beta>)
           \<and> current_carrier_wave_phase_shift (tracking_params t') = x - 2 * pi * of_int \<lfloor>x / (2 * pi)\<rfloor>
           \<and> 0 \<le> current_carrier_wave_phase_shift (tracking_params t')
           \<and> current_carrier_wave_phase_shift (tracking_params t') < 2 * pi
           \<and> current_doppler_shift (tracking_params t') =
               current_doppler_shift (tracking_params t) + \<beta> * e)"
proof -
  have "0 < math_tau" by (simp add: math_tau_def)
  from py_fmod_range [OF this] show ?thesis
    unfolding Let_def
    by (simp add: process_samples_carrier_phase [OF assms] process_samples_doppler [OF assms]
        calculate_loop_filter_alpha_and_beta_eq py_fmod_def math_tau_def mult.commute)
qed

lemma np_var_eq:
  "np_var xs = (if xs = [] then None else Some (variance xs))"
  by (simp add: np_var_def np_mean_def variance_def)

lemma centered_angle_of_nonneg: "0 \<le> centered_angle_of z"
proof -
  have "0 \<le> py_fmod ((np_arctan2 (Im z) (Re z) / math_tau) * 360) 180
      \<and> py_fmod ((np_arctan2 (Im z) (Re z) / math_tau) * 360) 180 < 180"
    by (rule py_fmod_range) simp
  then show ?thesis
    by (simp add: centered_angle_of_def Let_def)
qed

lemma py_abs_bool_iff: "py_abs_bool b \<noteq> 0 \<longleftrightarrow> b"
  by (simp add: py_abs_bool_def)

lemma does_i_channel_look_locked_iff:
  "does_i_channel_look_locked (prompt_is t) \<longleftrightarrow> (2 < length (prompt_is t) \<longrightarrow> i_channel_criterion t)"
  by (simp add: does_i_channel_look_locked_def i_channel_criterion_def Let_def np_var_eq
      nan_lt_def nan_add_def nan_div_def)

lemma is_constellation_rotation_acceptable_iff:
  "is_constellation_rotation_acceptable (prompt_is t) (prompt_qs t)
     \<longleftrightarrow> (2 < length (constellation_points t) \<longrightarrow> constellation_criterion t)"
proof -
  define points where "points = constellation_points t"
  define left_pole where "left_pole = filter (\<lambda>p. Re p < 0) points"
  have abs_eq: "\<bar>centered_angle_of z\<bar> = centered_angle_of z" for z
    using centered_angle_of_nonneg [of z] by simp
  have lhs: "is_constellation_rotation_acceptable (prompt_is t) (prompt_qs t) =
      (if 2 < length points then
         (case np_mean_complex left_pole of
            None \<Rightarrow> py_abs_bool False \<noteq> 0
          | Some left_point \<Rightarrow> py_abs_bool (centered_angle_of left_point < 6) \<noteq> 0)
       else True)"
    unfolding is_constellation_rotation_acceptable_def points_def left_pole_def
      constellation_points_def Let_def ..
  have rhs: "constellation_criterion t =
      (left_pole \<noteq> [] \<and> \<bar>centered_angle_of (sum_list left_pole / of_nat (length left_pole))\<bar> < 6)"
    unfolding constellation_criterion_def points_def left_pole_def Let_def ..
  show ?thesis
    unfolding lhs rhs points_def [symmetric]
    by (cases "left_pole = []") (simp_all add: np_mean_complex_def py_abs_bool_iff abs_eq)
qed

text \<open>
  Claim C4, amended. For a tracker with at least 250 entries of phase-error history,
  \<open>_is_locked\<close> is true exactly when the variance of the last 250 phase errors is below
  900, and, if more than two prompt I values are recorded, the mean of the variances of the
  non-negative and of the negative values among the last 250 is below 2 (both halves being
  non-empty), and, if more than two constellation points are recorded, the left pole is
  non-empty and the absolute value of the centred angle of its centre of mass is below 6
  degrees. With two or fewer recorded values the last two checks count as passed. The
  centred angle is never negative, which is why the source's \<open>abs(centered_angle < 6)\<close>
  decides the same as \<open>abs(centered_angle) < 6\<close>.
\<close>

theorem C4_lock_criteria_with_defaults:
  assumes "250 \<le> length (carrier_wave_phase_errors (tracking_params t))"
  shows "is_locked t \<longleftrightarrow>
           phase_error_variance_criterion t
         \<and> (2 < length (prompt_is t) \<longrightarrow> i_channel_criterion t)
         \<and> (2 < length (constellation_points t) \<longrightarrow> constellation_criterion t)"
proof -
  have "py_last 250 (carrier_wave_phase_errors (tracking_params t)) \<noteq> []"
    using assms by (auto simp: py_last_def)
  then have "nan_lt (np_var (py_last 250 (carrier_wave_phase_errors (tracking_params t)))) 900
      \<longleftrightarrow> phase_error_variance_criterion t"
    by (simp add: np_var_eq nan_lt_def phase_error_variance_criterion_def)
  then show ?thesis
    using assms
    by (simp add: is_locked_def Let_def does_i_channel_look_locked_iff
        is_constellation_rotation_acceptable_iff)
qed

lemma variance_replicate_0: "variance (replicate n 0) = 0"
  by (simp add: variance_def sum_list_replicate o_def)

lemma settled_errors:
  "carrier_wave_phase_errors (tracking_params (settled_tracker a b)) = replicate 250 0"
  "prompt_is (settled_tracker a b) = a" "prompt_qs (settled_tracker a b) = b"
  by (simp_all add: settled_tracker_def)

lemma centered_angle_diag: "centered_angle_of (Complex (- 1) (- 1)) = 45"
proof -
  have "np_arctan2 (- 1) (- 1) = - (3 * pi / 4)"
    by (simp add: np_arctan2_def arctan_one)
  then have "(np_arctan2 (- 1) (- 1) / math_tau) * 360 = - 135"
    by (simp add: math_tau_def)
  moreover have "py_fmod (- 135) 180 = 45"
  proof -
    have "\<lfloor>- 135 / 180 :: real\<rfloor> = - 1" by linarith
    then show ?thesis by (simp add: py_fmod_def)
  qed
  ultimately show ?thesis
    by (simp add: centered_angle_of_def Let_def)
qed

text \<open>
  Claim C4 as stated fails. With 250 entries of zero phase error and a single recorded
  constellation point at \<open>(-1, -1)\<close>, the centred angle of the left pole is 45 degrees, so
  the third criterion does not hold, and \<open>_is_locked\<close> still answers true: with two or
  fewer recorded points the source takes the I-channel and the constellation checks as
  passed.
\<close>

theorem C4_counterexample:
  "250 \<le> length (carrier_wave_phase_errors (tracking_params (settled_tracker [- 1] [- 1])))
   \<and> is_locked (settled_tracker [- 1] [- 1])
   \<and> \<not> constellation_criterion (settled_tracker [- 1] [- 1])"
proof -
  have "is_locked (settled_tracker [- 1] [- 1])"
    by (simp add: is_locked_def Let_def settled_errors py_last_def np_var_eq variance_replicate_0
        nan_lt_def does_i_channel_look_locked_def is_constellation_rotation_acceptable_def)
  moreover have "\<not> constellation_criterion (settled_tracker [- 1] [- 1])"
    by (simp add: constellation_criterion_def constellation_points_def settled_errors
        centered_angle_diag)
  ultimately show ?thesis by (simp add: settled_errors)
qed

lemma centered_angle_left: "centered_angle_of (Complex (- 1) 0) = 0"
proof -
  have "np_arctan2 0 (- 1) = pi"
    by (simp add: np_arctan2_def)
  then have "(np_arctan2 0 (- 1) / math_tau) * 360 = 180"
    by (simp add: math_tau_def)
  moreover have "py_fmod 180 180 = 0"
    by (simp add: py_fmod_def)
  ultimately show ?thesis
    by (simp add: centered_angle_of_def Let_def)
qed

theorem C4_witness:
  "250 \<le> length (carrier_wave_phase_errors (tracking_params (settled_tracker [1, - 1, - 1] [0, 0, 0])))
   \<and> 2 < length (prompt_is (settled_tracker [1, - 1, - 1] [0, 0, 0]))
   \<and> i_channel_criterion (settled_tracker [1, - 1, - 1] [0, 0, 0])
   \<and> constellation_criterion (settled_tracker [1, - 1, - 1] [0, 0, 0])
   \<and> is_locked (settled_tracker [1, - 1, - 1] [0, 0, 0])"
proof -
  let ?t = "settled_tracker [1, - 1, - 1] [0, 0, 0]"
  have h: "250 \<le> length (carrier_wave_phase_errors (tracking_params ?t))"
    by (simp add: settled_errors)
  have c1: "phase_error_variance_criterion ?t"
    by (simp add: phase_error_variance_criterion_def settled_errors py_last_def variance_replicate_0)
  have c2: "i_channel_criterion ?t"
    by (simp add: i_channel_criterion_def settled_errors py_last_def variance_def)
  have "Complex (- 2) 0 / 2 = Complex (- 1) 0"
    by (simp add: complex_eq_iff)
  then have c3: "constellation_criterion ?t"
    by (simp add: constellation_criterion_def constellation_points_def settled_errors
        centered_angle_left)
  from C4_lock_criteria_with_defaults [OF h] c1 c2 c3 h show ?thesis
    by (simp add: settled_errors)
qed

theorem C9_witness:
  "np_argmax (map cmod [Complex 0 1, Complex 3 4]) = Inr 1
   \<and> \<not> is_locked (before_loop_filter example_tracker ([Complex 0 1, Complex 3 4] ! 1))
   \<and> calculate_loop_filter_alpha_and_beta 6 = (12 * sqrt 2 / 2046000, 144 / 2046000)
   \<and> current_doppler_shift
       (tracking_params (fst (process_samples example_tracker 0 [Complex 0 1, Complex 3 4])))
       = 1200 + 144 / 2046000 * 12"
proof -
  have h: "np_argmax (map cmod [Complex 0 1, Complex 3 4]) = Inr 1"
    by (simp add: np_argmax_def cmod_3_4 cmod_def)
  have l: "\<not> is_locked (before_loop_filter example_tracker ([Complex 0 1, Complex 3 4] ! 1))"
    by (simp add: is_locked_def before_loop_filter_def example_tracker_def)
  from C9_loop_filter_gains_and_updates [OF h, of example_tracker 0] h l show ?thesis
    by (simp add: Let_def SAMPLES_PER_SECOND_def example_tracker_def)
qed

lemma is_complete_iff: "is_complete ps \<longleftrightarrow> (\<forall>t. ps t \<noteq> None)"
proof
  assume c: "is_complete ps"
  show "\<forall>t. ps t \<noteq> None"
  proof
    fix t
    from c show "ps t \<noteq> None"
      by (cases t) (simp_all add: is_complete_def all_orbital_parameter_types_def)
  qed
next
  assume "\<forall>t. ps t \<noteq> None"
  then show "is_complete ps"
    by (simp add: is_complete_def all_orbital_parameter_types_def)
qed

lemma process_subframe_keeps_complete:
  assumes "is_complete ops"
  shows "is_complete (fst (process_subframe ops tps sf))"
  using assms
  by (cases sf)
     (simp_all add: is_complete_iff process_subframe1_def process_subframe2_def
        process_subframe3_def process_subframe4_def process_subframe5_def)

lemma orbital_parameters_of_handle:
  "orbital_parameters_of (fst (handle_subframe_emitted w s sf)) s' =
     (if s' = s
      then fst (process_subframe (orbital_parameters_of w s) (time_parameters_of w s) sf)
      else orbital_parameters_of w s')"
  by (simp add: handle_subframe_emitted_def Let_def orbital_parameters_of_def split: prod.splits)

lemma events_of_handle:
  "snd (handle_subframe_emitted w s sf) =
     (if \<not> is_complete (orbital_parameters_of w s)
         \<and> is_complete (orbital_parameters_of (fst (handle_subframe_emitted w s sf)) s)
      then [DeterminedSatelliteOrbitEvent s
              (orbital_parameters_of (fst (handle_subframe_emitted w s sf)) s)]
      else [])"
  by (simp add: handle_subframe_emitted_def Let_def orbital_parameters_of_def split: prod.splits)

lemma handle_keeps_complete:
  assumes "is_complete (orbital_parameters_of w s')"
  shows "is_complete (orbital_parameters_of (fst (handle_subframe_emitted w s sf)) s')"
  using assms by (auto simp: orbital_parameters_of_handle process_subframe_keeps_complete)

lemma events_of_other_satellite:
  assumes "s \<noteq> s'"
  shows "filter (is_orbit_determined_for s') (snd (handle_subframe_emitted w s sf)) = []"
  using assms by (simp add: events_of_handle)

lemma handle_subframes_Cons:
  "handle_subframes w ((s, sf) # calls) =
     (fst (handle_subframes (fst (handle_subframe_emitted w s sf)) calls),
      snd (handle_subframe_emitted w s sf)
        @ snd (handle_subframes (fst (handle_subframe_emitted w s sf)) calls))"
  by (simp add: Let_def split: prod.splits)

lemma no_event_once_complete:
  assumes "is_complete (orbital_parameters_of w s')"
  shows "filter (is_orbit_determined_for s') (snd (handle_subframes w calls)) = []"
  using assms
proof (induction calls arbitrary: w)
  case Nil
  then show ?case by simp
next
  case (Cons call calls)
  obtain s sf where call: "call = (s, sf)" by (cases call)
  have "filter (is_orbit_determined_for s') (snd (handle_subframe_emitted w s sf)) = []"
    using Cons.prems by (simp add: events_of_handle)
  moreover have "filter (is_orbit_determined_for s')
      (snd (handle_subframes (fst (handle_subframe_emitted w s sf)) calls)) = []"
    by (rule Cons.IH) (rule handle_keeps_complete [OF Cons.prems])
  ultimately show ?case
    unfolding call handle_subframes_Cons by simp
qed

lemma at_most_one_event:
  "length (filter (is_orbit_determined_for s') (snd (handle_subframes w calls))) \<le> 1"
proof (induction calls arbitrary: w)
  case Nil
  then show ?case by simp
next
  case (Cons call calls)
  obtain s sf where call: "call = (s, sf)" by (cases call)
  let ?w1 = "fst (handle_subframe_emitted w s sf)"
  show ?case
  proof (cases "filter (is_orbit_determined_for s') (snd (handle_subframe_emitted w s sf)) = []")
    case True
    with Cons.IH [of ?w1] show ?thesis
      unfolding call handle_subframes_Cons by simp
  next
    case False
    then have emitted: "s' = s" "is_complete (orbital_parameters_of ?w1 s)"
      by (auto simp: events_of_handle split: if_splits)
    have one: "length (filter (is_orbit_determined_for s') (snd (handle_subframe_emitted w s sf))) \<le> 1"
      by (simp add: events_of_handle)
    from emitted have "filter (is_orbit_determined_for s') (snd (handle_subframes ?w1 calls)) = []"
      by (simp add: no_event_once_complete)
    with one show ?thesis
      unfolding call handle_subframes_Cons by simp
  qed
qed

text \<open>
  Claim C2. A call of \<open>handle_subframe_emitted\<close> for satellite \<open>s\<close> returns the
  orbit-determined event for \<open>s\<close> exactly when the call takes the satellite's orbital
  parameter set from incomplete to complete, and it returns nothing otherwise. Hence in
  any sequence of calls, from any state of the world model, the event is returned at most
  once for a satellite ID, and never again once the set is complete, whatever slots later
  subframes overwrite.
\<close>

theorem C2_orbit_determined_event_exactly_on_completion:
  "snd (handle_subframe_emitted w s sf) =
     (if \<not> is_complete (orbital_parameters_of w s)
         \<and> is_complete (orbital_parameters_of (fst (handle_subframe_emitted w s sf)) s)
      then [DeterminedSatelliteOrbitEvent s
              (orbital_parameters_of (fst (handle_subframe_emitted w s sf)) s)]
      else [])
   \<and> length (filter (is_orbit_determined_for s) (snd (handle_subframes w calls))) \<le> 1
   \<and> (is_complete (orbital_parameters_of w s) \<longrightarrow>
        filter (is_orbit_determined_for s) (snd (handle_subframes w calls)) = [])"
proof (intro conjI impI)
  show "snd (handle_subframe_emitted w s sf) =
     (if \<not> is_complete (orbital_parameters_of w s)
         \<and> is_complete (orbital_parameters_of (fst (handle_subframe_emitted w s sf)) s)
      then [DeterminedSatelliteOrbitEvent s
              (orbital_parameters_of (fst (handle_subframe_emitted w s sf)) s)]
      else [])"
    by (rule events_of_handle)
  show "length (filter (is_orbit_determined_for s) (snd (handle_subframes w calls))) \<le> 1"
    by (rule at_most_one_event)
  show "filter (is_orbit_determined_for s) (snd (handle_subframes w calls)) = []"
    if "is_complete (orbital_parameters_of w s)"
    using that by (rule no_event_once_complete)
qed

lemma example_incomplete:
  "\<not> is_complete (orbital_parameters_of (fst (handle_subframe_emitted GpsWorldModel_init 7 example_subframe2)) 7)"
  unfolding orbital_parameters_of_handle
  by (simp add: example_subframe2_def process_subframe2_def
      orbital_parameters_of_def GpsWorldModel_init_def OrbitalParameters_init_def
      is_complete_def all_orbital_parameter_types_def)

lemma example_complete:
  "is_complete (orbital_parameters_of
     (fst (handle_subframe_emitted
        (fst (handle_subframe_emitted GpsWorldModel_init 7 example_subframe2)) 7 example_subframe3)) 7)"
  unfolding orbital_parameters_of_handle
  by (simp add: example_subframe2_def example_subframe3_def
      process_subframe2_def process_subframe3_def
      is_complete_def all_orbital_parameter_types_def)

theorem C2_witness:
  "length (snd (handle_subframe_emitted
             (fst (handle_subframe_emitted GpsWorldModel_init 7 example_subframe2))
             7 example_subframe3)) = 1
   \<and> is_complete (orbital_parameters_of
        (fst (handle_subframes GpsWorldModel_init [(7, example_subframe2), (7, example_subframe3)])) 7)
   \<and> filter (is_orbit_determined_for 7)
        (snd (handle_subframes
           (fst (handle_subframes GpsWorldModel_init [(7, example_subframe2), (7, example_subframe3)]))
           [(7, example_subframe2), (7, example_subframe3)])) = []"
proof -
  let ?w1 = "fst (handle_subframe_emitted GpsWorldModel_init 7 example_subframe2)"
  let ?w2 = "fst (handle_subframes GpsWorldModel_init [(7, example_subframe2), (7, example_subframe3)])"
  have w2: "?w2 = fst (handle_subframe_emitted ?w1 7 example_subframe3)"
    by (simp add: handle_subframes_Cons del: handle_subframes.simps(2))
  have c: "is_complete (orbital_parameters_of ?w2 7)"
    unfolding w2 by (rule example_complete)
  from C2_orbit_determined_event_exactly_on_completion
         [of ?w1 7 example_subframe3 "[]"]
       example_incomplete example_complete
  have one: "length (snd (handle_subframe_emitted ?w1 7 example_subframe3)) = 1"
    by simp
  from C2_orbit_determined_event_exactly_on_completion
         [of ?w2 7 example_subframe2 "[(7, example_subframe2), (7, example_subframe3)]"] c
  have "filter (is_orbit_determined_for 7)
          (snd (handle_subframes ?w2 [(7, example_subframe2), (7, example_subframe3)])) = []"
    by blast
  with one c show ?thesis by blast
qed

lemma pipeline_init_raises:
  "GpsSatelliteSignalProcessingPipeline_init env sat acquisition_result = Inl TypeError"
  by (simp add: GpsSatelliteSignalProcessingPipeline_init_def GpsSatelliteTracker_init_def Let_def)

lemma install_pipelines_state:
  "fst (install_pipelines env r new) = r"
  by (cases new) (simp_all add: pipeline_init_raises Let_def split: option.splits)


lemma perform_acquisition_tracked:
  "tracked_satellite_ids_to_processing_pipelines (fst (perform_acquisition env r)) =
     tracked_satellite_ids_to_processing_pipelines r"
  by (simp add: perform_acquisition_def Let_def install_pipelines_state)




lemma handle_integrator_cannot_determine_bit_phase_raises:
  "handle_integrator_cannot_determine_bit_phase pl confidence = (pl, Some NotImplementedError)"
  by (simp add: handle_integrator_cannot_determine_bit_phase_def)

lemma pipeline_process_samples_raises:
  "pipeline_process_samples env pl samples sample_index = (pl, Some TypeError)"
  by (simp add: pipeline_process_samples_def process_samples_call_def)

lemma track_pipelines_eq:
  "track_pipelines env tracked samples sample_index =
     (tracked, if tracked = [] then None else Some TypeError)"
  by (cases tracked) (auto simp: pipeline_process_samples_raises)

lemma track_acquired_satellites_eq:
  "track_acquired_satellites env r samples sample_index =
     (r, if tracked_satellite_ids_to_processing_pipelines r = [] then None else Some TypeError)"
  by (simp add: track_acquired_satellites_def track_pipelines_eq)

lemma step_tracked:
  "tracked_satellite_ids_to_processing_pipelines (fst (step env r samples sample_index)) =
     tracked_satellite_ids_to_processing_pipelines r"
  by (simp add: step_def Let_def case_prod_beta track_acquired_satellites_eq
      perform_acquisition_tracked split: option.splits)









text \<open>
  Claim C1. For every satellite and every acquisition result, constructing the pipeline
  raises TypeError, because the tracker is constructed without its \<open>loop_bandwidth\<close>
  argument. Therefore \<open>_perform_acquisition\<close> never adds a pipeline, and a receiver that
  tracks nothing still tracks nothing after any step.
\<close>

theorem C1_pipeline_constructor_raises_type_error:
  "GpsSatelliteSignalProcessingPipeline_init env sat acquisition_result = Inl TypeError
   \<and> tracked_satellite_ids_to_processing_pipelines (fst (perform_acquisition env r)) =
       tracked_satellite_ids_to_processing_pipelines r
   \<and> (tracked_satellite_ids_to_processing_pipelines r = [] \<longrightarrow>
        tracked_satellite_ids_to_processing_pipelines (fst (step env r samples sample_index)) = [])"
proof (intro conjI impI)
  show "GpsSatelliteSignalProcessingPipeline_init env sat acquisition_result = Inl TypeError"
    by (rule pipeline_init_raises)
  show "tracked_satellite_ids_to_processing_pipelines (fst (perform_acquisition env r)) =
       tracked_satellite_ids_to_processing_pipelines r"
    by (rule perform_acquisition_tracked)
  show "tracked_satellite_ids_to_processing_pipelines (fst (step env r samples sample_index)) = []"
    if "tracked_satellite_ids_to_processing_pipelines r = []"
    using that by (simp add: step_tracked)
qed

theorem C1_witness:
  "tracked_satellite_ids_to_processing_pipelines primed_receiver = []
   \<and> detect_satellites_in_antenna_data detecting_collaborators
        (satellite_ids_eligible_for_acquisition primed_receiver) [] = [example_acquisition_result]
   \<and> snd (step detecting_collaborators primed_receiver [] 0) = Some TypeError
   \<and> tracked_satellite_ids_to_processing_pipelines
        (fst (step detecting_collaborators primed_receiver [] 0)) = []"
proof -
  have e: "tracked_satellite_ids_to_processing_pipelines primed_receiver = []"
    by (simp add: primed_receiver_def GpsReceiver_init_def)
  have d: "detect_satellites_in_antenna_data detecting_collaborators
        (satellite_ids_eligible_for_acquisition primed_receiver) [] = [example_acquisition_result]"
    by (simp add: detecting_collaborators_def)
  have x: "snd (step detecting_collaborators primed_receiver [] 0) = Some TypeError"
    by (simp add: step_def perform_acquisition_def Let_def primed_receiver_def GpsReceiver_init_def
        deque_append_def ACQUISITION_INTEGRATION_PERIOD_MS_def detecting_collaborators_def
        example_acquisition_result_def example_replicas_def pipeline_init_raises)
  from C1_pipeline_constructor_raises_type_error
         [of detecting_collaborators example_satellite example_acquisition_result
             primed_receiver "[]" 0] e d x
  show ?thesis by simp
qed




end
